theory Spec2Isabelle
  imports Complex_Main
begin

section \<open>JavaScript values the loaders compute with\<close>

text \<open>
  A JavaScript number, as far as the loaders look at it: a finite value, \<open>NaN\<close>, or one
  of the two infinities. Finite values are reals: rounding, overflow and the sign of zero
  are not modelled (zero stands for \<open>+0\<close>).
\<close>

datatype number = Fin real | NaN | PosInfinity | NegInfinity

text \<open>The operator \<open>/\<close> of JavaScript on numbers.\<close>

fun divide_number :: "number \<Rightarrow> number \<Rightarrow> number" where
  "divide_number NaN _ = NaN"
| "divide_number _ NaN = NaN"
| "divide_number (Fin a) (Fin b) =
     (if b = 0 then (if a = 0 then NaN else if 0 < a then PosInfinity else NegInfinity)
      else Fin (a / b))"
| "divide_number (Fin a) PosInfinity = Fin 0"
| "divide_number (Fin a) NegInfinity = Fin 0"
| "divide_number PosInfinity (Fin b) = (if 0 \<le> b then PosInfinity else NegInfinity)"
| "divide_number NegInfinity (Fin b) = (if 0 \<le> b then NegInfinity else PosInfinity)"
| "divide_number PosInfinity PosInfinity = NaN"
| "divide_number PosInfinity NegInfinity = NaN"
| "divide_number NegInfinity PosInfinity = NaN"
| "divide_number NegInfinity NegInfinity = NaN"

definition isNaN :: "number \<Rightarrow> bool" where
  "isNaN x = (x = NaN)"

text \<open>\<open>x > 0\<close> and \<open>x == 0\<close> on numbers: every comparison with \<open>NaN\<close> is false.\<close>

fun greater_zero :: "number \<Rightarrow> bool" where
  "greater_zero (Fin a) = (0 < a)"
| "greater_zero PosInfinity = True"
| "greater_zero _ = False"

definition equals_zero :: "number \<Rightarrow> bool" where
  "equals_zero x = (x = Fin 0)"

text \<open>A number between 0 and 1.\<close>

fun unit_interval :: "number \<Rightarrow> bool" where
  "unit_interval (Fin q) = (0 \<le> q \<and> q \<le> 1)"
| "unit_interval _ = False"

text \<open>
  What went wrong when a JavaScript function throws: a \<open>TypeError\<close> (a property of
  \<open>null\<close> or \<open>undefined\<close> is read or written), or the value a host function threw.
\<close>

datatype js_error = TypeError | HostError string

text \<open>
  The outcome of a call: it returns a value or throws. A method that changes the loader
  returns the outcome together with the loader as it is left, also when it throws:
  what was assigned before the throw stays assigned.
\<close>

datatype 'a completion = Return 'a | Throw js_error

text \<open>
  The object \<open>_parseXML\<close> returns: with a \<open>DOMParser\<close> the document parsed from the text
  under the given MIME type, otherwise the \<open>Microsoft.XMLDOM\<close> document the text was
  loaded into. The parsers belong to the browser; a document is represented by what it
  was parsed from.
\<close>

datatype xml_document = DOMParsed string string | XMLDOMLoaded string

text \<open>
  The values a response can be: \<open>null\<close> (or \<open>undefined\<close>, which \<open>!= null\<close> does not tell
  apart), a string, a binary buffer, an XML document, the tag of the item (a reference:
  the tag itself is stored with the item), the script element \<open>_generateTag\<close> creates
  (with its \<open>text\<close>), and what \<open>eval\<close> produced for a JSON item.
\<close>

datatype jsval =
    Null
  | Str string
  | ArrayBuffer "nat list"
  | Document xml_document
  | ItemTag
  | ScriptTag string
  | Bool bool
  | Num int
  | Array "jsval list"
  | Object "(string \<times> jsval) list"

text \<open>
  The conversion to a string that \<open>"json=" + x\<close>, \<open>tag.text = x\<close>, \<open>createTextNode(x)\<close>
  and \<open>parseFromString(x, ...)\<close> apply. The transport hands over \<open>null\<close>, strings,
  buffers and documents; the other cases never reach a conversion and are given the
  generic object string.
\<close>

fun toString :: "jsval \<Rightarrow> string" where
  "toString Null = ''null''"
| "toString (Str s) = s"
| "toString (ArrayBuffer _) = ''[object ArrayBuffer]''"
| "toString (Document _) = ''[object XMLDocument]''"
| "toString _ = ''[object Object]''"

subsection \<open>\<open>parseInt\<close>\<close>

text \<open>
  \<open>parseInt(x)\<close> converts \<open>x\<close> to a string, skips leading white space (the ASCII
  white space here, a \<open>char\<close> being a byte), reads a sign,
  takes radix 16 after a prefix \<open>0x\<close> or \<open>0X\<close> and radix 10 otherwise, and reads the
  longest prefix of digits. With no digit the result is \<open>NaN\<close>, here \<open>None\<close>.
\<close>

definition is_white :: "char \<Rightarrow> bool" where
  "is_white c = (c \<in> {CHR '' '', CHR 0x09, CHR 0x0A, CHR 0x0B, CHR 0x0C, CHR 0x0D})"

definition digit_value :: "char \<Rightarrow> nat option" where
  "digit_value c =
     (let n = (of_char c :: nat) in
      if 48 \<le> n \<and> n \<le> 57 then Some (n - 48)
      else if 97 \<le> n \<and> n \<le> 122 then Some (n - 87)
      else if 65 \<le> n \<and> n \<le> 90 then Some (n - 55)
      else None)"

definition is_digit :: "nat \<Rightarrow> char \<Rightarrow> bool" where
  "is_digit radix c = (case digit_value c of None \<Rightarrow> False | Some d \<Rightarrow> d < radix)"

fun parse_digits :: "nat \<Rightarrow> nat \<Rightarrow> string \<Rightarrow> nat" where
  "parse_digits radix acc [] = acc"
| "parse_digits radix acc (c # cs) =
     (if is_digit radix c then parse_digits radix (acc * radix + the (digit_value c)) cs
      else acc)"

definition parse_radix :: "nat \<Rightarrow> string \<Rightarrow> nat option" where
  "parse_radix radix s =
     (case s of
        [] \<Rightarrow> None
      | c # _ \<Rightarrow> if is_digit radix c then Some (parse_digits radix 0 s) else None)"

definition parse_unsigned :: "string \<Rightarrow> nat option" where
  "parse_unsigned s =
     (if take 2 s = ''0x'' \<or> take 2 s = ''0X'' then parse_radix 16 (drop 2 s)
      else parse_radix 10 s)"

definition parseInt :: "string \<Rightarrow> int option" where
  "parseInt s =
     (case dropWhile is_white s of
        [] \<Rightarrow> None
      | c # cs \<Rightarrow>
          if c = CHR ''-'' then map_option (\<lambda>n. - int n) (parse_unsigned cs)
          else if c = CHR ''+'' then map_option int (parse_unsigned cs)
          else map_option int (parse_unsigned (c # cs)))"

text \<open>The decimal string of an integer, as the conversion of a number to a string gives it.\<close>

definition digit_char :: "nat \<Rightarrow> char" where
  "digit_char d = char_of (48 + d)"

fun decimal :: "nat \<Rightarrow> string" where
  "decimal n = (if n < 10 then [digit_char n] else decimal (n div 10) @ [digit_char (n mod 10)])"

declare decimal.simps [simp del]

definition decimal_int :: "int \<Rightarrow> string" where
  "decimal_int i = (if i < 0 then CHR ''-'' # decimal (nat (- i)) else decimal (nat i))"

section \<open>The data the loaders work on\<close>

subsection \<open>The item and its tag\<close>

text \<open>
  The constants \<open>createjs.PreloadJS.IMAGE\<close>, \<open>JAVASCRIPT\<close>, ... that
  \<open>_generateTag\<close> switches on are declared by \<open>PreloadJS\<close> itself; they are taken as
  pairwise different, and a type that is none of them is an \<open>OtherType\<close>.
\<close>

datatype item_type =
  IMAGE | JAVASCRIPT | CSS | XML | SVG | JSON | TEXT | BINARY | OtherType string

datatype node = TextNode string | DocumentElement xml_document

text \<open>
  The tag the caller supplies with an item, as far as \<open>_generateTag\<close> writes to it:
  \<open>tag_onload\<close> holds when \<open>tag.onload\<close> is the proxy of \<open>_handleTagReady\<close>;
  \<open>in_head\<close> when the tag was appended to the document's head; \<open>styleSheet\<close> is
  \<open>None\<close> where the tag has no \<open>styleSheet\<close> object and its \<open>cssText\<close> otherwise.
\<close>

record tag =
  tag_onload :: bool
  tag_src :: "string option"
  in_head :: bool
  styleSheet :: "string option"
  childNodes :: "node list"

subsection \<open>The transport\<close>

text \<open>
  The status of a request is a number on \<open>XMLHttpRequest\<close> and the ActiveX
  objects and is missing on \<open>XDomainRequest\<close>; a string is allowed for too, since
  \<open>_checkError\<close> runs it through \<open>parseInt\<close>.
\<close>

datatype status_value = StatusNumber int | StatusString string | StatusUndefined

fun status_string :: "status_value \<Rightarrow> string" where
  "status_string (StatusNumber n) = decimal_int n"
| "status_string (StatusString s) = s"
| "status_string StatusUndefined = ''undefined''"

text \<open>Reading a property of the transport that some browsers refuse with an exception.\<close>

datatype 'a access = Throws | Got 'a

text \<open>
  The request object. A handler field holds when the property is the proxy of the
  loader's handler of that name, and does not when it is \<open>null\<close>.
\<close>

record xhr =
  onloadstart :: bool
  onprogress :: bool
  onabort :: bool
  onerror :: bool
  onload :: bool
  ontimeout :: bool
  onloadend :: bool
  onreadystatechange :: bool
  readyState :: nat
  status :: status_value
  xhr_response :: jsval
  responseText :: "jsval access"
  responseXML :: "jsval access"

subsection \<open>Notifications\<close>

text \<open>
  The event object a notification primitive hands out, and the record of one
  notification: the event, whether the callback property was set and so was called,
  and whether the event was dispatched to listeners.
\<close>

datatype event_object =
    LoadStartEvent
  | ProgressEvent number number
  | CompleteEvent
  | ErrorEvent "js_error option"

datatype notification = Notification event_object bool bool

subsection \<open>The loader\<close>

text \<open>
  The fields of \<open>AbstractLoader\<close> and \<open>XHRLoader\<close> (the leading underscore of a name is
  dropped), followed by what the loader shares with its surroundings: whether
  \<open>window.createjs\<close> still exists, the timers of \<open>setTimeout\<close> that are pending and
  the next timer id, and the notifications delivered so far, oldest first. The four
  callback fields and \<open>listeners\<close> hold when the property is set.
\<close>

record loader =
  loaded :: bool
  canceled :: bool
  progress :: number
  item_src :: string
  item_type :: item_type
  item_tag :: "tag option"
  onProgress :: bool
  onLoadStart :: bool
  onComplete :: bool
  onError :: bool
  listeners :: bool
  request :: "xhr option"
  loadTimeout :: "nat option"
  xhrLevel :: nat
  response :: jsval
  rawResponse :: jsval
  createjs :: bool
  pending :: "nat list"
  next_timer :: nat
  notified :: "notification list"

text \<open>
  What the browser provides and the loader calls: \<open>eval\<close> (\<open>None\<close> when it throws; the
  evaluated text is taken to have no effect on the loader) and whether
  \<open>window.DOMParser\<close> exists.
\<close>

record platform =
  js_eval :: "string \<Rightarrow> jsval option"
  hasDOMParser :: bool

section \<open>AbstractLoader\<close>

definition isCanceled :: "loader \<Rightarrow> bool" where
  "isCanceled s = (if \<not> createjs s \<or> canceled s then True else False)"

text \<open>
  \<open>this.onX && this.onX(event); this._listeners && this.dispatchEvent(...)\<close>: one
  notification, recorded with who received it. Callbacks and listeners are taken to
  return normally and not to call back into the loader.
\<close>

definition notify :: "event_object \<Rightarrow> bool \<Rightarrow> loader \<Rightarrow> loader" where
  "notify ev callback s = s\<lparr>notified := notified s @ [Notification ev callback (listeners s)]\<rparr>"

definition sendLoadStart :: "loader \<Rightarrow> loader" where
  "sendLoadStart s = (if isCanceled s then s else notify LoadStartEvent (onLoadStart s) s)"

text \<open>
  The argument of \<open>_sendProgress\<close>: a \<open>Number\<close> object (\<open>value instanceof Number\<close>), or
  an object with the fields \<open>loaded\<close> and \<open>total\<close>.
\<close>

datatype progress_value = NumberObject number | LoadedTotal number number

definition sendProgress :: "progress_value \<Rightarrow> loader \<Rightarrow> loader" where
  "sendProgress v s =
     (if isCanceled s then s
      else case v of
        NumberObject x \<Rightarrow> notify (ProgressEvent x (Fin 1)) (onProgress s) (s\<lparr>progress := x\<rparr>)
      | LoadedTotal l t \<Rightarrow>
          (let q = divide_number l t;
               p = (if isNaN q \<or> q = PosInfinity then Fin 0 else q)
           in notify (ProgressEvent l t) (onProgress s) (s\<lparr>progress := p\<rparr>)))"

definition sendComplete :: "loader \<Rightarrow> loader" where
  "sendComplete s = (if isCanceled s then s else notify CompleteEvent (onComplete s) s)"

text \<open>The argument is the \<open>source\<close> of the event object, \<open>None\<close> when there is none.\<close>

definition sendError :: "js_error option \<Rightarrow> loader \<Rightarrow> loader" where
  "sendError src s = (if isCanceled s then s else notify (ErrorEvent src) (onError s) s)"

section \<open>XHRLoader\<close>

text \<open>
  A loader as the prototype and \<open>init\<close> leave it. \<open>_createXHR\<close> picks the transport
  from what the browser offers; its outcome is the argument: \<open>None\<close> when no transport
  could be constructed (\<open>_request\<close> stays \<open>null\<close> and \<open>_xhrLevel\<close> stays 1), and the
  level of the transport otherwise.
\<close>

definition new_xhr :: xhr where
  "new_xhr = \<lparr>onloadstart = False, onprogress = False, onabort = False, onerror = False,
     onload = False, ontimeout = False, onloadend = False, onreadystatechange = False,
     readyState = 1, status = StatusNumber 0, xhr_response = Null,
     responseText = Got Null, responseXML = Got Null\<rparr>"

definition init :: "string \<Rightarrow> item_type \<Rightarrow> tag option \<Rightarrow> nat option \<Rightarrow> loader" where
  "init src ty tg created =
     \<lparr>loaded = False, canceled = False, progress = Fin 0,
      item_src = src, item_type = ty, item_tag = tg,
      onProgress = False, onLoadStart = False, onComplete = False, onError = False,
      listeners = False,
      request = (case created of None \<Rightarrow> None | Some _ \<Rightarrow> Some new_xhr),
      loadTimeout = None,
      xhrLevel = (case created of None \<Rightarrow> 1 | Some level \<Rightarrow> level),
      response = Null, rawResponse = Null,
      createjs = True, pending = [], next_timer = 1, notified = []\<rparr>"

definition getResult :: "loader \<Rightarrow> jsval" where
  "getResult s = response s"

definition getRawResult :: "loader \<Rightarrow> jsval" where
  "getRawResult s = rawResponse s"

text \<open>
  \<open>setTimeout\<close> hands out a fresh id and keeps the timer pending; \<open>clearTimeout\<close>
  takes a timer off the pending ones and does nothing for \<open>null\<close>.
\<close>

definition setTimeout :: "loader \<Rightarrow> nat \<times> loader" where
  "setTimeout s =
     (next_timer s, s\<lparr>pending := pending s @ [next_timer s], next_timer := Suc (next_timer s)\<rparr>)"

definition clearTimeout :: "nat option \<Rightarrow> loader \<Rightarrow> loader" where
  "clearTimeout t s = (case t of None \<Rightarrow> s | Some i \<Rightarrow> s\<lparr>pending := removeAll i (pending s)\<rparr>)"

text \<open>
  An assignment to properties of \<open>this._request\<close>, where the request is not \<open>null\<close>
  (and a change the transport makes to itself, which is none when there is no
  transport).
\<close>

definition on_request :: "(xhr \<Rightarrow> xhr) \<Rightarrow> loader \<Rightarrow> loader" where
  "on_request f s = s\<lparr>request := map_option f (request s)\<rparr>"

text \<open>
  \<open>_clean\<close>: the timer is cleared first, then the eight handler properties of the
  request are set to \<open>null\<close>; writing \<open>req.onloadstart\<close> throws when the request is
  \<open>null\<close>. \<open>_checkLoadInterval\<close> is never set by this loader, so the final
  \<open>clearInterval\<close> does nothing.
\<close>

definition unbind :: "xhr \<Rightarrow> xhr" where
  "unbind req = req\<lparr>onloadstart := False, onprogress := False, onabort := False,
     onerror := False, onload := False, ontimeout := False, onloadend := False,
     onreadystatechange := False\<rparr>"

definition clean :: "loader \<Rightarrow> unit completion \<times> loader" where
  "clean s =
     (let s1 = clearTimeout (loadTimeout s) s in
      case request s1 of
        None \<Rightarrow> (Throw TypeError, s1)
      | Some _ \<Rightarrow> (Return (), on_request unbind s1))"

text \<open>
  \<open>_handleAbort\<close>, \<open>_handleError\<close> and \<open>_handleTimeout\<close> have the same body:
  \<open>_clean\<close>, then \<open>_sendError\<close> with no event.
\<close>

definition handleError :: "loader \<Rightarrow> unit completion \<times> loader" where
  "handleError s =
     (case clean s of
        (Throw e, s1) \<Rightarrow> (Throw e, s1)
      | (Return _, s1) \<Rightarrow> (Return (), sendError None s1))"

definition handleAbort :: "loader \<Rightarrow> unit completion \<times> loader" where
  "handleAbort s =
     (case clean s of
        (Throw e, s1) \<Rightarrow> (Throw e, s1)
      | (Return _, s1) \<Rightarrow> (Return (), sendError None s1))"

definition handleTimeout :: "loader \<Rightarrow> unit completion \<times> loader" where
  "handleTimeout s =
     (case clean s of
        (Throw e, s1) \<Rightarrow> (Throw e, s1)
      | (Return _, s1) \<Rightarrow> (Return (), sendError None s1))"

text \<open>
  \<open>cancel\<close>: the flag, \<open>_clean\<close>, then \<open>abort()\<close> on the request. After \<open>_clean\<close> no
  handler is bound, so the events an abort fires do not reach the loader.
\<close>

definition cancel :: "loader \<Rightarrow> unit completion \<times> loader" where
  "cancel s = clean (s\<lparr>canceled := True\<rparr>)"

text \<open>
  \<open>load\<close>. The first argument is what \<open>send()\<close> does: \<open>None\<close> when it returns, the
  exception when it throws; the request was opened as asynchronous, so \<open>send()\<close>
  fires no event before it returns. \<open>createjs.PreloadJS.proxy\<close> cannot be reached once
  \<open>createjs\<close> is gone. The length of the timeout, \<open>TIMEOUT_TIME\<close>, plays no part: a
  pending timer fires when the event \<open>TimerFired\<close> below says so.
\<close>

definition load :: "js_error option \<Rightarrow> loader \<Rightarrow> unit completion \<times> loader" where
  "load send s =
     (case request s of
        None \<Rightarrow> handleError s
      | Some _ \<Rightarrow>
          if \<not> createjs s then (Throw TypeError, s)
          else
            let s1 = on_request (\<lambda>r. r\<lparr>onloadstart := True, onprogress := True,
                       onabort := True, onerror := True, ontimeout := True\<rparr>) s;
                s2 = (if xhrLevel s1 = 1
                      then (case setTimeout s1 of (t, s') \<Rightarrow> s'\<lparr>loadTimeout := Some t\<rparr>)
                      else s1);
                s3 = on_request (\<lambda>r. r\<lparr>onload := True, onreadystatechange := True\<rparr>) s2
            in (case send of
                  None \<Rightarrow> (Return (), s3)
                | Some e \<Rightarrow> (Return (), sendError (Some e) s3)))"

definition handleProgress :: "number \<Rightarrow> number \<Rightarrow> loader \<Rightarrow> loader" where
  "handleProgress ev_loaded ev_total s =
     (if greater_zero ev_loaded \<and> equals_zero ev_total then s
      else sendProgress (LoadedTotal ev_loaded ev_total) s)"

definition handleLoadStart :: "loader \<Rightarrow> loader" where
  "handleLoadStart s = sendLoadStart (clearTimeout (loadTimeout s) s)"

text \<open>\<open>_checkError\<close> returns false for an error: the status 404 or 0.\<close>

definition checkError :: "loader \<Rightarrow> bool completion" where
  "checkError s =
     (case request s of
        None \<Rightarrow> Throw TypeError
      | Some req \<Rightarrow>
          (let st = parseInt (status_string (status req)) in
           if st = Some 404 \<or> st = Some 0 then Return False else Return True))"

text \<open>
  \<open>try { if (x != null) { return x; } } catch (e) {}\<close>: a read that throws counts as
  \<open>null\<close>.
\<close>

definition guarded :: "jsval access \<Rightarrow> jsval" where
  "guarded a = (case a of Throws \<Rightarrow> Null | Got v \<Rightarrow> v)"

definition getResponse :: "loader \<Rightarrow> jsval completion" where
  "getResponse s =
     (if response s \<noteq> Null then Return (response s)
      else case request s of
        None \<Rightarrow> Throw TypeError
      | Some req \<Rightarrow>
          if xhr_response req \<noteq> Null then Return (xhr_response req)
          else if guarded (responseText req) \<noteq> Null then Return (guarded (responseText req))
          else if guarded (responseXML req) \<noteq> Null then Return (guarded (responseXML req))
          else Return Null)"

definition parseXML :: "platform \<Rightarrow> string \<Rightarrow> string \<Rightarrow> xml_document" where
  "parseXML p txt mime = (if hasDOMParser p then DOMParsed mime txt else XMLDOMLoaded txt)"

text \<open>
  \<open>_generateTag\<close>. Reading \<open>createjs.PreloadJS.IMAGE\<close> for the first case label
  throws once \<open>createjs\<close> is gone. A branch that writes to the item's tag throws when
  the item has none; what the branch assigned before stays assigned.
\<close>

definition generateTag :: "platform \<Rightarrow> loader \<Rightarrow> bool completion \<times> loader" where
  "generateTag p s =
     (if \<not> createjs s then (Throw TypeError, s)
      else case item_type s of
        IMAGE \<Rightarrow>
          (case item_tag s of
             None \<Rightarrow> (Throw TypeError, s)
           | Some tg \<Rightarrow>
               (Return False,
                s\<lparr>item_tag := Some (tg\<lparr>tag_onload := True, tag_src := Some (item_src s)\<rparr>),
                  rawResponse := response s,
                  response := ItemTag\<rparr>))
      | JAVASCRIPT \<Rightarrow>
          (Return True,
           s\<lparr>rawResponse := response s, response := ScriptTag (toString (response s))\<rparr>)
      | CSS \<Rightarrow>
          (case item_tag s of
             None \<Rightarrow> (Throw TypeError, s)
           | Some tg \<Rightarrow>
               (let tg1 = tg\<lparr>in_head := True\<rparr>;
                    tg2 = (case styleSheet tg1 of
                             Some _ \<Rightarrow> tg1\<lparr>styleSheet := Some (toString (response s))\<rparr>
                           | None \<Rightarrow>
                               tg1\<lparr>childNodes := childNodes tg1 @ [TextNode (toString (response s))]\<rparr>)
                in (Return True,
                    s\<lparr>item_tag := Some tg2, rawResponse := response s, response := ItemTag\<rparr>)))
      | XML \<Rightarrow>
          (Return True,
           s\<lparr>response := Document (parseXML p (toString (response s)) ''text/xml'')\<rparr>)
      | SVG \<Rightarrow>
          (let xml = parseXML p (toString (response s)) ''image/svg+xml'';
               s1 = s\<lparr>rawResponse := response s\<rparr>
           in case item_tag s1 of
                None \<Rightarrow> (Throw TypeError, s1)
              | Some tg \<Rightarrow>
                  (Return True,
                   s1\<lparr>item_tag := Some (tg\<lparr>childNodes := childNodes tg @ [DocumentElement xml]\<rparr>),
                      response := ItemTag\<rparr>))
      | JSON \<Rightarrow>
          (case js_eval p (''json='' @ toString (response s)) of
             None \<Rightarrow> (Return True, s)
           | Some json \<Rightarrow> (Return True, s\<lparr>rawResponse := response s, response := json\<rparr>))
      | _ \<Rightarrow> (Return True, s))"

text \<open>\<open>_handleLoad\<close>: only the first call is processed.\<close>

definition handleLoad :: "platform \<Rightarrow> loader \<Rightarrow> unit completion \<times> loader" where
  "handleLoad p s =
     (if loaded s then (Return (), s)
      else
        let s1 = s\<lparr>loaded := True\<rparr> in
        case checkError s1 of
          Throw e \<Rightarrow> (Throw e, s1)
        | Return False \<Rightarrow> handleError s1
        | Return True \<Rightarrow>
            (case getResponse s1 of
               Throw e \<Rightarrow> (Throw e, s1)
             | Return v \<Rightarrow>
                 (case clean (s1\<lparr>response := v\<rparr>) of
                    (Throw e, s2) \<Rightarrow> (Throw e, s2)
                  | (Return _, s2) \<Rightarrow>
                      (case generateTag p s2 of
                         (Throw e, s3) \<Rightarrow> (Throw e, s3)
                       | (Return isComplete, s3) \<Rightarrow>
                           (Return (), if isComplete then sendComplete s3 else s3)))))"

definition handleReadyStateChange :: "platform \<Rightarrow> loader \<Rightarrow> unit completion \<times> loader" where
  "handleReadyStateChange p s =
     (case request s of
        None \<Rightarrow> (Throw TypeError, s)
      | Some req \<Rightarrow> if readyState req = 4 then handleLoad p s else (Return (), s))"

definition handleTagReady :: "loader \<Rightarrow> loader" where
  "handleTagReady s = sendComplete s"

section \<open>The loader among its events\<close>

text \<open>
  What can happen to a loader: the transport fires one of its events, a timer of
  \<open>setTimeout\<close> fires, the item's tag fires its \<open>onload\<close>, the caller calls \<open>load()\<close>
  (with what \<open>send()\<close> does) or \<open>cancel()\<close>, the transport changes one of the
  properties the loader reads, or \<open>window.createjs\<close> is removed.
\<close>

datatype xhr_update =
    SetReadyState nat
  | SetStatus status_value
  | SetResponse jsval
  | SetResponseText "jsval access"
  | SetResponseXML "jsval access"

fun update_xhr :: "xhr_update \<Rightarrow> xhr \<Rightarrow> xhr" where
  "update_xhr (SetReadyState n) r = r\<lparr>readyState := n\<rparr>"
| "update_xhr (SetStatus st) r = r\<lparr>status := st\<rparr>"
| "update_xhr (SetResponse v) r = r\<lparr>xhr_response := v\<rparr>"
| "update_xhr (SetResponseText a) r = r\<lparr>responseText := a\<rparr>"
| "update_xhr (SetResponseXML a) r = r\<lparr>responseXML := a\<rparr>"

datatype event =
    OnLoadStart
  | OnProgress number number
  | OnAbort
  | OnError
  | OnTimeout
  | OnLoad
  | OnReadyStateChange
  | TimerFired nat
  | TagOnLoad
  | CallLoad "js_error option"
  | CallCancel
  | Transport xhr_update
  | Teardown

definition is_load :: "event \<Rightarrow> bool" where
  "is_load e = (case e of CallLoad _ \<Rightarrow> True | _ \<Rightarrow> False)"

text \<open>
  The method an event runs, called whether or not it is still bound. An exception
  ends the method and leaves the loader as the method left it. A timer that fires is
  no longer pending.
\<close>

fun invoke :: "platform \<Rightarrow> event \<Rightarrow> loader \<Rightarrow> loader" where
  "invoke p OnLoadStart s = handleLoadStart s"
| "invoke p (OnProgress l t) s = handleProgress l t s"
| "invoke p OnAbort s = snd (handleAbort s)"
| "invoke p OnError s = snd (handleError s)"
| "invoke p OnTimeout s = snd (handleTimeout s)"
| "invoke p OnLoad s = snd (handleLoad p s)"
| "invoke p OnReadyStateChange s = snd (handleReadyStateChange p s)"
| "invoke p (TimerFired i) s = snd (handleTimeout (s\<lparr>pending := removeAll i (pending s)\<rparr>))"
| "invoke p TagOnLoad s = handleTagReady s"
| "invoke p (CallLoad send) s = snd (load send s)"
| "invoke p CallCancel s = snd (cancel s)"
| "invoke p (Transport u) s = on_request (update_xhr u) s"
| "invoke p Teardown s = s\<lparr>createjs := False\<rparr>"

text \<open>
  Whether the browser delivers the event: a transport event needs its handler bound on
  the request, a timer must be pending, the tag's event needs \<open>tag.onload\<close> bound.
\<close>

definition handler_bound :: "(xhr \<Rightarrow> bool) \<Rightarrow> loader \<Rightarrow> bool" where
  "handler_bound h s = (case request s of None \<Rightarrow> False | Some req \<Rightarrow> h req)"

definition tag_bound :: "loader \<Rightarrow> bool" where
  "tag_bound s = (case item_tag s of None \<Rightarrow> False | Some tg \<Rightarrow> tag_onload tg)"

fun deliverable :: "event \<Rightarrow> loader \<Rightarrow> bool" where
  "deliverable OnLoadStart s = handler_bound onloadstart s"
| "deliverable (OnProgress l t) s = handler_bound onprogress s"
| "deliverable OnAbort s = handler_bound onabort s"
| "deliverable OnError s = handler_bound onerror s"
| "deliverable OnTimeout s = handler_bound ontimeout s"
| "deliverable OnLoad s = handler_bound onload s"
| "deliverable OnReadyStateChange s = handler_bound onreadystatechange s"
| "deliverable (TimerFired i) s = (i \<in> set (pending s))"
| "deliverable TagOnLoad s = tag_bound s"
| "deliverable _ s = True"

definition deliver :: "platform \<Rightarrow> event \<Rightarrow> loader \<Rightarrow> loader" where
  "deliver p e s = (if deliverable e s then invoke p e s else s)"

fun run :: "platform \<Rightarrow> event list \<Rightarrow> loader \<Rightarrow> loader" where
  "run p [] s = s"
| "run p (e # es) s = run p es (deliver p e s)"

text \<open>The same, with every method called whether it is bound or not.\<close>

fun invoke_all :: "platform \<Rightarrow> event list \<Rightarrow> loader \<Rightarrow> loader" where
  "invoke_all p [] s = s"
| "invoke_all p (e # es) s = invoke_all p es (invoke p e s)"

subsection \<open>Counting notifications\<close>

fun event_of :: "notification \<Rightarrow> event_object" where
  "event_of (Notification ev _ _) = ev"

fun is_error :: "event_object \<Rightarrow> bool" where
  "is_error (ErrorEvent _) = True"
| "is_error _ = False"

definition completes :: "loader \<Rightarrow> nat" where
  "completes s = length (filter (\<lambda>n. event_of n = CompleteEvent) (notified s))"

definition errors :: "loader \<Rightarrow> nat" where
  "errors s = length (filter (\<lambda>n. is_error (event_of n)) (notified s))"

subsection \<open>Examples\<close>

text \<open>
  A browser for the examples: it has a \<open>DOMParser\<close>, and its \<open>eval\<close> knows one
  assignment of an object literal and throws on every other text, as a browser does on
  the malformed text of the examples.
\<close>

definition example_eval :: "string \<Rightarrow> jsval option" where
  \<open>example_eval src =
     (if src = ''json={"a":1}'' then Some (Object [(''a'', Num 1)]) else None)\<close>

definition example_platform :: platform where
  "example_platform = \<lparr>js_eval = example_eval, hasDOMParser = True\<rparr>"

text \<open>
  A loader on a transport of the given level with all four callbacks set, and the
  events of a transport that has the whole body with the given status.
\<close>

definition example_loader :: "item_type \<Rightarrow> tag option \<Rightarrow> nat \<Rightarrow> loader" where
  "example_loader ty tg level =
     (init ''asset'' ty tg (Some level))\<lparr>onProgress := True, onLoadStart := True,
        onComplete := True, onError := True\<rparr>"


definition arrived :: "int \<Rightarrow> string \<Rightarrow> event list" where
  "arrived code body =
     [Transport (SetStatus (StatusNumber code)), Transport (SetResponse (Str body)),
      Transport (SetReadyState 4)]"

section \<open>Facts about the methods\<close>

subsection \<open>The guard of the notification primitives\<close>

lemma isCanceled_iff: "isCanceled s \<longleftrightarrow> canceled s \<or> \<not> createjs s"
  by (auto simp: isCanceled_def)

lemma isCanceled_send:
  "isCanceled s \<Longrightarrow> sendLoadStart s = s"
  "isCanceled s \<Longrightarrow> sendProgress v s = s"
  "isCanceled s \<Longrightarrow> sendComplete s = s"
  "isCanceled s \<Longrightarrow> sendError src s = s"
  by (simp_all add: sendLoadStart_def sendProgress_def sendComplete_def sendError_def)

lemma send_notified:
  "notified (sendLoadStart s) =
     (if isCanceled s then notified s
      else notified s @ [Notification LoadStartEvent (onLoadStart s) (listeners s)])"
  "notified (sendComplete s) =
     (if isCanceled s then notified s
      else notified s @ [Notification CompleteEvent (onComplete s) (listeners s)])"
  "notified (sendError src s) =
     (if isCanceled s then notified s
      else notified s @ [Notification (ErrorEvent src) (onError s) (listeners s)])"
  by (simp_all add: sendLoadStart_def sendComplete_def sendError_def notify_def)

lemma sendProgress_notified:
  "notified (sendProgress v s) =
     (if isCanceled s then notified s
      else notified s @
        [Notification (case v of NumberObject x \<Rightarrow> ProgressEvent x (Fin 1)
                               | LoadedTotal l t \<Rightarrow> ProgressEvent l t)
           (onProgress s) (listeners s)])"
  by (simp add: sendProgress_def notify_def Let_def split: progress_value.splits)

subsection \<open>What the methods leave alone\<close>

lemma send_frame [simp]:
  "canceled (sendLoadStart s) = canceled s"
  "canceled (sendProgress v s) = canceled s"
  "canceled (sendComplete s) = canceled s"
  "canceled (sendError src s) = canceled s"
  "createjs (sendLoadStart s) = createjs s"
  "createjs (sendProgress v s) = createjs s"
  "createjs (sendComplete s) = createjs s"
  "createjs (sendError src s) = createjs s"
  "loaded (sendLoadStart s) = loaded s"
  "loaded (sendProgress v s) = loaded s"
  "loaded (sendComplete s) = loaded s"
  "loaded (sendError src s) = loaded s"
  "item_tag (sendLoadStart s) = item_tag s"
  "item_tag (sendProgress v s) = item_tag s"
  "item_tag (sendComplete s) = item_tag s"
  "item_tag (sendError src s) = item_tag s"
  "pending (sendLoadStart s) = pending s"
  "pending (sendProgress v s) = pending s"
  "pending (sendComplete s) = pending s"
  "pending (sendError src s) = pending s"
  "next_timer (sendLoadStart s) = next_timer s"
  "next_timer (sendProgress v s) = next_timer s"
  "next_timer (sendComplete s) = next_timer s"
  "next_timer (sendError src s) = next_timer s"
  "request (sendLoadStart s) = request s"
  "request (sendProgress v s) = request s"
  "request (sendComplete s) = request s"
  "request (sendError src s) = request s"
  by (simp_all add: isCanceled_def notify_def sendLoadStart_def sendProgress_def
      sendComplete_def sendError_def Let_def split: progress_value.splits)

lemma clearTimeout_frame [simp]:
  "canceled (clearTimeout t s) = canceled s"
  "createjs (clearTimeout t s) = createjs s"
  "notified (clearTimeout t s) = notified s"
  "loaded (clearTimeout t s) = loaded s"
  "item_tag (clearTimeout t s) = item_tag s"
  "request (clearTimeout t s) = request s"
  "next_timer (clearTimeout t s) = next_timer s"
  by (simp_all add: clearTimeout_def split: option.splits)

lemma clearTimeout_pending:
  "set (pending (clearTimeout t s)) = set (pending s) - (case t of None \<Rightarrow> {} | Some i \<Rightarrow> {i})"
  by (simp add: clearTimeout_def split: option.splits)

lemma on_request_frame [simp]:
  "canceled (on_request f s) = canceled s"
  "createjs (on_request f s) = createjs s"
  "notified (on_request f s) = notified s"
  "loaded (on_request f s) = loaded s"
  "item_tag (on_request f s) = item_tag s"
  "pending (on_request f s) = pending s"
  "next_timer (on_request f s) = next_timer s"
  "request (on_request f s) = map_option f (request s)"
  "item_type (on_request f s) = item_type s"
  "xhrLevel (on_request f s) = xhrLevel s"
  "loadTimeout (on_request f s) = loadTimeout s"
  "onProgress (on_request f s) = onProgress s"
  "onLoadStart (on_request f s) = onLoadStart s"
  "onComplete (on_request f s) = onComplete s"
  "onError (on_request f s) = onError s"
  "listeners (on_request f s) = listeners s"
  "response (on_request f s) = response s"
  "rawResponse (on_request f s) = rawResponse s"
  by (simp_all add: on_request_def)

lemma clean_fst: "fst (clean s) = (if request s = None then Throw TypeError else Return ())"
  by (simp add: clean_def Let_def split: option.splits)

lemma clean_frame [simp]:
  "canceled (snd (clean s)) = canceled s"
  "createjs (snd (clean s)) = createjs s"
  "notified (snd (clean s)) = notified s"
  "loaded (snd (clean s)) = loaded s"
  "item_tag (snd (clean s)) = item_tag s"
  "next_timer (snd (clean s)) = next_timer s"
  "pending (snd (clean s)) = pending (clearTimeout (loadTimeout s) s)"
  "request (snd (clean s)) = map_option unbind (request s)"
  by (simp_all add: clean_def Let_def on_request_def split: option.splits)

lemma generateTag_frame [simp]:
  "canceled (snd (generateTag p s)) = canceled s"
  "createjs (snd (generateTag p s)) = createjs s"
  "notified (snd (generateTag p s)) = notified s"
  "loaded (snd (generateTag p s)) = loaded s"
  "pending (snd (generateTag p s)) = pending s"
  "next_timer (snd (generateTag p s)) = next_timer s"
  "request (snd (generateTag p s)) = request s"
  by (simp_all add: generateTag_def Let_def split: option.splits item_type.splits)

lemma subscribers_frame [simp]:
  "onComplete (sendComplete s) = onComplete s"
  "listeners (sendComplete s) = listeners s"
  "onComplete (sendError src s) = onComplete s"
  "listeners (sendError src s) = listeners s"
  "onComplete (snd (clean s)) = onComplete s"
  "listeners (snd (clean s)) = listeners s"
  "onComplete (snd (generateTag p s)) = onComplete s"
  "listeners (snd (generateTag p s)) = listeners s"
  "item_type (snd (clean s)) = item_type s"
  by (simp_all add: sendComplete_def sendError_def notify_def clean_def clearTimeout_def
      generateTag_def Let_def split: option.splits item_type.splits)

lemma onError_clean [simp]: "onError (snd (clean s)) = onError s"
  by (simp add: clean_def clearTimeout_def Let_def split: option.splits)

lemma results_frame [simp]:
  "response (sendComplete s) = response s"
  "rawResponse (sendComplete s) = rawResponse s"
  "response (snd (clean s)) = response s"
  "rawResponse (snd (clean s)) = rawResponse s"
  by (simp_all add: sendComplete_def notify_def clean_def clearTimeout_def Let_def
      split: option.splits)

lemma loaded_update_reads [simp]:
  "getResponse (s\<lparr>loaded := b\<rparr>) = getResponse s"
  "checkError (s\<lparr>loaded := b\<rparr>) = checkError s"
  by (simp_all add: getResponse_def checkError_def)

lemma readyState_unbind [simp]: "readyState (unbind req) = readyState req"
  by (simp add: unbind_def)

subsection \<open>The loader a method leaves, by projections\<close>

lemma handleError_snd:
  "snd (handleError s) =
     (if request s = None then snd (clean s) else sendError None (snd (clean s)))"
  "snd (handleAbort s) =
     (if request s = None then snd (clean s) else sendError None (snd (clean s)))"
  "snd (handleTimeout s) =
     (if request s = None then snd (clean s) else sendError None (snd (clean s)))"
  using clean_fst [of s]
  by (auto simp: handleError_def handleAbort_def handleTimeout_def
      split: prod.splits completion.splits if_splits)

lemma handleLoad_snd:
  "snd (handleLoad p s) =
     (if loaded s then s
      else case checkError (s\<lparr>loaded := True\<rparr>) of
        Throw e \<Rightarrow> s\<lparr>loaded := True\<rparr>
      | Return ok \<Rightarrow>
          if \<not> ok then snd (handleError (s\<lparr>loaded := True\<rparr>))
          else (case getResponse (s\<lparr>loaded := True\<rparr>) of
            Throw e \<Rightarrow> s\<lparr>loaded := True\<rparr>
          | Return v \<Rightarrow>
              (let s2 = snd (clean (s\<lparr>loaded := True, response := v\<rparr>)) in
               case fst (clean (s\<lparr>loaded := True, response := v\<rparr>)) of
                 Throw e \<Rightarrow> s2
               | Return u \<Rightarrow>
                  (case fst (generateTag p s2) of
                     Throw e \<Rightarrow> snd (generateTag p s2)
                   | Return isComplete \<Rightarrow>
                       if isComplete then sendComplete (snd (generateTag p s2))
                       else snd (generateTag p s2)))))"
  by (auto simp: handleLoad_def Let_def split: prod.splits completion.splits bool.splits)

lemma handleLoad_fst:
  "fst (handleLoad p s) =
     (if loaded s then Return ()
      else case checkError s of
        Throw e \<Rightarrow> Throw e
      | Return ok \<Rightarrow>
          if \<not> ok then fst (handleError (s\<lparr>loaded := True\<rparr>))
          else (case getResponse s of
            Throw e \<Rightarrow> Throw e
          | Return v \<Rightarrow>
              (case fst (clean (s\<lparr>loaded := True, response := v\<rparr>)) of
                 Throw e \<Rightarrow> Throw e
               | Return u \<Rightarrow>
                  (case fst (generateTag p (snd (clean (s\<lparr>loaded := True, response := v\<rparr>)))) of
                     Throw e \<Rightarrow> Throw e
                   | Return isComplete \<Rightarrow> Return ()))))"
  by (auto simp: handleLoad_def Let_def split: prod.splits completion.splits bool.splits)

lemma handleReadyStateChange_snd:
  "snd (handleReadyStateChange p s) =
     (case request s of
        None \<Rightarrow> s
      | Some req \<Rightarrow> if readyState req = 4 then snd (handleLoad p s) else s)"
  by (simp add: handleReadyStateChange_def split: option.splits)

lemma cancel_snd: "snd (cancel s) = snd (clean (s\<lparr>canceled := True\<rparr>))"
  by (simp add: cancel_def)

lemma load_frame [simp]:
  "canceled (snd (load send s)) = canceled s"
  "createjs (snd (load send s)) = createjs s"
  "loaded (snd (load send s)) = loaded s"
  "item_tag (snd (load send s)) = item_tag s"
  by (auto simp: load_def handleError_snd setTimeout_def Let_def split: option.splits)

lemma load_notified:
  "notified (snd (load send s)) =
     (case send of
        Some e \<Rightarrow> if request s \<noteq> None \<and> \<not> isCanceled s
                   then notified s @ [Notification (ErrorEvent (Some e)) (onError s) (listeners s)]
                   else notified s
      | None \<Rightarrow> notified s)"
  by (auto simp: load_def handleError_snd setTimeout_def Let_def send_notified isCanceled_def
      split: option.splits)

lemma load_level1:
  assumes "request s = Some req" "xhrLevel s = 1" "createjs s"
  shows "loadTimeout (snd (load send s)) = Some (next_timer s)"
    "pending (snd (load send s)) = pending s @ [next_timer s]"
    "next_timer (snd (load send s)) = Suc (next_timer s)"
    "handler_bound onloadstart (snd (load send s))"
  using assms
  by (auto simp: load_def setTimeout_def Let_def handler_bound_def sendError_def notify_def
      split: option.splits)

subsection \<open>A canceled loader stays canceled and silent\<close>

lemma handleLoad_canceled:
  "canceled s \<Longrightarrow> canceled (snd (handleLoad p s)) \<and> notified (snd (handleLoad p s)) = notified s"
  by (simp add: handleLoad_snd handleError_snd Let_def send_notified isCanceled_def
      split: completion.splits)

lemma invoke_canceled:
  assumes "canceled s"
  shows "canceled (invoke p e s) \<and> notified (invoke p e s) = notified s"
proof (cases e)
  case OnLoad
  then show ?thesis using handleLoad_canceled [OF assms] by simp
next
  case OnReadyStateChange
  then show ?thesis using handleLoad_canceled [OF assms] assms
    by (simp add: handleReadyStateChange_snd split: option.splits)
next
  case (CallLoad send)
  then show ?thesis using assms
    by (simp add: load_notified isCanceled_def split: option.splits)
qed (simp_all add: assms handleError_snd cancel_snd handleLoadStart_def handleProgress_def
      handleTagReady_def send_notified isCanceled_def isCanceled_send)

lemma invoke_all_canceled:
  "canceled s \<Longrightarrow> canceled (invoke_all p es s) \<and> notified (invoke_all p es s) = notified s"
  by (induction es arbitrary: s) (simp_all add: invoke_canceled)

lemma run_canceled:
  "canceled s \<Longrightarrow> canceled (run p es s) \<and> notified (run p es s) = notified s"
  by (induction es arbitrary: s) (simp_all add: deliver_def invoke_canceled)

subsection \<open>\<open>parseInt\<close> reads back the decimal string of an integer\<close>

lemma digit_value_digit_char: "d < 10 \<Longrightarrow> digit_value (digit_char d) = Some d"
  by (simp add: digit_value_def digit_char_def Let_def)

lemma is_digit_digit_char: "d < 10 \<Longrightarrow> is_digit 10 (digit_char d)"
  by (simp add: is_digit_def digit_value_digit_char)

lemma digit_dec_props:
  assumes "is_digit 10 c"
  shows "\<not> is_white c" "c \<noteq> CHR ''-''" "c \<noteq> CHR ''+''" "c \<noteq> CHR ''x''" "c \<noteq> CHR ''X''"
  using assms
  by (auto simp: is_digit_def digit_value_def is_white_def Let_def split: if_splits)

lemma decimal_digits: "c \<in> set (decimal n) \<Longrightarrow> is_digit 10 c"
proof (induction n rule: decimal.induct)
  case (1 n)
  from "1.prems" have "c \<in> set (if n < 10 then [digit_char n]
      else decimal (n div 10) @ [digit_char (n mod 10)])"
    by (subst (asm) decimal.simps)
  with "1.IH" show ?case
    by (auto simp: is_digit_digit_char split: if_splits)
qed

lemma decimal_not_Nil: "decimal n \<noteq> []"
  by (subst decimal.simps) simp

lemma parse_digits_append:
  "\<forall>c\<in>set xs. is_digit r c \<Longrightarrow>
     parse_digits r acc (xs @ ys) = parse_digits r (parse_digits r acc xs) ys"
  by (induction xs arbitrary: acc) simp_all

lemma parse_digits_decimal:
  "parse_digits 10 acc (decimal n) = acc * 10 ^ length (decimal n) + n"
proof (induction n arbitrary: acc rule: decimal.induct)
  case (1 n)
  show ?case
  proof (cases "n < 10")
    case True
    then show ?thesis
      by (subst (1 2) decimal.simps) (simp add: is_digit_digit_char digit_value_digit_char)
  next
    case False
    have d: "\<forall>c\<in>set (decimal (n div 10)). is_digit 10 c"
      using decimal_digits by blast
    have "parse_digits 10 acc (decimal n) =
        parse_digits 10 (parse_digits 10 acc (decimal (n div 10))) [digit_char (n mod 10)]"
      using False by (subst decimal.simps) (simp add: parse_digits_append [OF d])
    also have "\<dots> = (acc * 10 ^ length (decimal (n div 10)) + n div 10) * 10 + n mod 10"
      using False by (simp add: "1.IH" is_digit_digit_char digit_value_digit_char)
    also have "\<dots> = acc * 10 ^ length (decimal n) + n"
      using False by (subst (2) decimal.simps) (simp add: algebra_simps)
    finally show ?thesis .
  qed
qed

lemma parse_unsigned_decimal: "parse_unsigned (decimal n) = Some n"
proof -
  obtain c cs where cs: "decimal n = c # cs"
    using decimal_not_Nil [of n] by (cases "decimal n") auto
  have dig: "\<forall>c\<in>set (decimal n). is_digit 10 c"
    using decimal_digits by blast
  have "take 2 (decimal n) \<noteq> ''0x''" "take 2 (decimal n) \<noteq> ''0X''"
    using dig digit_dec_props(4,5) cs by (cases cs; fastforce)+
  moreover have "parse_radix 10 (decimal n) = Some n"
    using dig cs parse_digits_decimal [of 0 n] by (simp add: parse_radix_def)
  ultimately show ?thesis
    by (simp add: parse_unsigned_def)
qed

lemma parseInt_decimal_int: "parseInt (decimal_int i) = Some i"
proof -
  have start: "dropWhile is_white (decimal n) = decimal n"
    "\<exists>c cs. decimal n = c # cs \<and> c \<noteq> CHR ''-'' \<and> c \<noteq> CHR ''+''" for n
  proof -
    obtain c cs where cs: "decimal n = c # cs"
      using decimal_not_Nil [of n] by (cases "decimal n") auto
    then have "is_digit 10 c"
      using decimal_digits [of c n] by simp
    then show "dropWhile is_white (decimal n) = decimal n"
      "\<exists>c cs. decimal n = c # cs \<and> c \<noteq> CHR ''-'' \<and> c \<noteq> CHR ''+''"
      using cs digit_dec_props(1,2,3) by auto
  qed
  show ?thesis
  proof (cases "i < 0")
    case True
    have "\<not> is_white CHR ''-''" by (simp add: is_white_def)
    then show ?thesis
      using True by (simp add: parseInt_def decimal_int_def parse_unsigned_decimal)
  next
    case False
    obtain c cs where "decimal (nat i) = c # cs" "c \<noteq> CHR ''-''" "c \<noteq> CHR ''+''"
      using start(2) by blast
    then show ?thesis
      using False start(1) [of "nat i"] parse_unsigned_decimal [of "nat i"]
      by (simp add: parseInt_def decimal_int_def)
  qed
qed

lemma checkError_parseInt:
  "request s = Some req \<Longrightarrow>
     checkError s = Return (parseInt (status_string (status req)) \<noteq> Some 404 \<and>
                            parseInt (status_string (status req)) \<noteq> Some 0)"
  by (simp add: checkError_def Let_def)

subsection \<open>The completion handler\<close>

lemma handleLoad_loaded: "loaded s \<Longrightarrow> handleLoad p s = (Return (), s)"
  by (simp add: handleLoad_def)




lemma getResponse_returns: "request s = Some req \<Longrightarrow> \<exists>v. getResponse s = Return v"
  by (simp add: getResponse_def)

lemma handleLoad_frame [simp]:
  "canceled (snd (handleLoad p s)) = canceled s"
  "createjs (snd (handleLoad p s)) = createjs s"
  "onComplete (snd (handleLoad p s)) = onComplete s"
  "listeners (snd (handleLoad p s)) = listeners s"
  by (simp_all add: handleLoad_snd handleError_snd Let_def split: completion.splits)


subsection \<open>Complete notifications after a failure\<close>

lemma completes_cong: "notified a = notified b \<Longrightarrow> completes a = completes b"
  by (simp add: completes_def)

lemma completes_send [simp]:
  "completes (sendLoadStart s) = completes s"
  "completes (sendProgress v s) = completes s"
  "completes (sendError src s) = completes s"
  "completes (snd (clean s)) = completes s"
  "completes (clearTimeout t s) = completes s"
  by (simp_all add: completes_def send_notified sendProgress_notified
      split: progress_value.splits)

lemma completes_update [simp]:
  "completes (s\<lparr>pending := ts\<rparr>) = completes s"
  "completes (s\<lparr>canceled := b\<rparr>) = completes s"
  "completes (s\<lparr>createjs := b\<rparr>) = completes s"
  "completes (s\<lparr>request := r\<rparr>) = completes s"
  "completes (on_request f s) = completes s"
  "completes (s\<lparr>loaded := b\<rparr>) = completes s"
  by (simp_all add: completes_def)

lemma completes_load [simp]: "completes (snd (load send s)) = completes s"
  by (simp add: completes_def load_notified split: option.splits)

lemma tag_bound_cong: "item_tag a = item_tag b \<Longrightarrow> tag_bound a = tag_bound b"
  by (simp add: tag_bound_def)

text \<open>
  Once \<open>loaded\<close> is set and the tag's \<open>onload\<close> is not bound, both stay so and no
  complete notification is sent, whatever is delivered.
\<close>

lemma deliver_after_failure:
  assumes "loaded s" "\<not> tag_bound s"
  shows "loaded (deliver p e s) \<and> \<not> tag_bound (deliver p e s) \<and>
    completes (deliver p e s) = completes s"
proof (cases "deliverable e s")
  case False
  then show ?thesis using assms by (simp add: deliver_def)
next
  case True
  have "loaded (invoke p e s) \<and> item_tag (invoke p e s) = item_tag s \<and>
      completes (invoke p e s) = completes s"
  proof (cases e)
    case TagOnLoad
    then show ?thesis using True assms by simp
  next
    case OnLoad
    then show ?thesis using assms by (simp add: handleLoad_loaded)
  next
    case OnReadyStateChange
    then show ?thesis using assms
      by (simp add: handleReadyStateChange_snd handleLoad_loaded split: option.splits)
  qed (simp_all add: assms handleError_snd cancel_snd handleLoadStart_def handleProgress_def)
  then show ?thesis
    using True assms tag_bound_cong [of "invoke p e s" s] by (simp add: deliver_def)
qed

lemma run_after_failure:
  "loaded s \<Longrightarrow> \<not> tag_bound s \<Longrightarrow>
     loaded (run p es s) \<and> \<not> tag_bound (run p es s) \<and> completes (run p es s) = completes s"
proof (induction es arbitrary: s)
  case Nil
  then show ?case by simp
next
  case (Cons e es)
  then show ?case
    using deliver_after_failure [of s p e] by simp
qed

subsection \<open>The manual timer\<close>

lemma handleLoad_timers:
  "set (pending (snd (handleLoad p s))) \<subseteq> set (pending s)"
  "next_timer (snd (handleLoad p s)) = next_timer s"
  by (auto simp: handleLoad_snd handleError_snd Let_def clearTimeout_pending
      split: completion.splits)

lemma load_timers:
  "set (pending (snd (load send s))) \<subseteq> insert (next_timer s) (set (pending s))"
  "next_timer s \<le> next_timer (snd (load send s))"
  by (auto simp: load_def handleError_snd setTimeout_def Let_def clearTimeout_pending
      split: option.splits)

text \<open>
  No method but \<open>load\<close> sets a timer, and \<open>load\<close> sets one with a fresh id.
\<close>

lemma invoke_timers:
  "set (pending (invoke p e s)) \<subseteq>
     (if is_load e then insert (next_timer s) (set (pending s)) else set (pending s))"
  "next_timer s \<le> next_timer (invoke p e s)"
proof -
  show "set (pending (invoke p e s)) \<subseteq>
     (if is_load e then insert (next_timer s) (set (pending s)) else set (pending s))"
  proof (cases e)
    case OnLoad
    then show ?thesis using handleLoad_timers(1) [of p s] by (simp add: is_load_def)
  next
    case OnReadyStateChange
    then show ?thesis using handleLoad_timers(1) [of p s]
      by (simp add: is_load_def handleReadyStateChange_snd split: option.splits)
  next
    case (CallLoad send)
    then show ?thesis using load_timers(1) [of send s] by (simp add: is_load_def)
  qed (auto simp: is_load_def handleError_snd cancel_snd handleLoadStart_def handleProgress_def
        handleTagReady_def clearTimeout_pending)
  show "next_timer s \<le> next_timer (invoke p e s)"
  proof (cases e)
    case OnLoad
    then show ?thesis by (simp add: handleLoad_timers)
  next
    case OnReadyStateChange
    then show ?thesis
      by (simp add: handleLoad_timers handleReadyStateChange_snd split: option.splits)
  next
    case (CallLoad send)
    then show ?thesis using load_timers(2) [of s send] by simp
  qed (simp_all add: handleError_snd cancel_snd handleLoadStart_def handleProgress_def
        handleTagReady_def)
qed

lemma deliver_cleared_timer:
  assumes "t < next_timer s" "t \<notin> set (pending s)"
  shows "t < next_timer (deliver p e s) \<and> t \<notin> set (pending (deliver p e s))"
  using assms invoke_timers [where p = p and e = e and s = s]
  by (auto simp: deliver_def split: if_splits)

lemma run_cleared_timer:
  "t < next_timer s \<Longrightarrow> t \<notin> set (pending s) \<Longrightarrow>
     t < next_timer (run p es s) \<and> t \<notin> set (pending (run p es s))"
proof (induction es arbitrary: s)
  case Nil
  then show ?case by simp
next
  case (Cons e es)
  then show ?case
    using deliver_cleared_timer [where t = t and s = s and p = p and e = e] by simp
qed

lemma run_no_timers:
  "pending s = [] \<Longrightarrow> list_all (\<lambda>e. \<not> is_load e) es \<Longrightarrow> pending (run p es s) = []"
proof (induction es arbitrary: s)
  case Nil
  then show ?case by simp
next
  case (Cons e es)
  have "pending (deliver p e s) = []"
    using Cons.prems invoke_timers(1) [where p = p and e = e and s = s]
    by (simp add: deliver_def)
  then show ?case
    using Cons by simp
qed

subsection \<open>The paths that keep the raw response, and those that clear the timer\<close>

text \<open>
  Every branch of \<open>_generateTag\<close> other than the XML one that replaces the response
  stores the response it had as the raw response.
\<close>

lemma generateTag_other_branches_keep_raw:
  assumes "generateTag p s = (Return c, s')" "item_type s \<noteq> XML" "response s' \<noteq> response s"
  shows "rawResponse s' = response s"
  using assms
  by (cases "item_type s")
    (auto simp: generateTag_def Let_def split: if_splits option.splits)

lemma generateTag_other_branches_keep_raw_witness:
  "getResult (run example_platform (CallLoad None # arrived 200 ''f()'' @ [OnLoad])
      (example_loader JAVASCRIPT None 2)) = ScriptTag ''f()'' \<and>
   getRawResult (run example_platform (CallLoad None # arrived 200 ''f()'' @ [OnLoad])
      (example_loader JAVASCRIPT None 2)) = Str ''f()'' \<and>
   rawResponse (snd (generateTag example_platform
      ((example_loader JAVASCRIPT None 2)\<lparr>response := Str ''f()''\<rparr>))) = Str ''f()''"
proof -
  let ?s = "(example_loader JAVASCRIPT None 2)\<lparr>response := Str ''f()''\<rparr>"
  let ?g = "generateTag example_platform ?s"
  have h: "?g = (Return True, snd ?g)" "item_type ?s \<noteq> XML" "response (snd ?g) \<noteq> response ?s"
    by code_simp+
  have whole: "getResult (run example_platform (CallLoad None # arrived 200 ''f()'' @ [OnLoad])
      (example_loader JAVASCRIPT None 2)) = ScriptTag ''f()''"
    "getRawResult (run example_platform (CallLoad None # arrived 200 ''f()'' @ [OnLoad])
      (example_loader JAVASCRIPT None 2)) = Str ''f()''"
    by code_simp+
  have "response ?s = Str ''f()''"
    by simp
  then show ?thesis
    using whole generateTag_other_branches_keep_raw [OF h] by simp
qed

text \<open>
  The handlers of error, abort and timeout, \<open>cancel()\<close> and the first call of
  \<open>_handleLoad\<close> all go through \<open>_clean\<close>, so after each of them the manual timer of
  the loader is not pending.
\<close>

lemma terminal_paths_clear_timer:
  assumes "loadTimeout s = Some t"
  shows "t \<notin> set (pending (snd (handleError s))) \<and>
     t \<notin> set (pending (snd (handleAbort s))) \<and>
     t \<notin> set (pending (snd (handleTimeout s))) \<and>
     t \<notin> set (pending (snd (cancel s))) \<and>
     (request s \<noteq> None \<and> \<not> loaded s \<longrightarrow> t \<notin> set (pending (snd (handleLoad p s))))"
proof -
  have "t \<notin> set (pending (snd (handleLoad p s)))"
    if r: "request s = Some req" and nl: "\<not> loaded s" for req
  proof -
    obtain v where v: "getResponse s = Return v"
      using getResponse_returns [OF r] by blast
    obtain ok where ok: "checkError s = Return ok"
      using checkError_parseInt [OF r] by blast
    show ?thesis
      using r nl assms v ok
      by (simp add: handleLoad_snd handleError_snd Let_def clearTimeout_pending clean_fst
          split: completion.splits)
  qed
  then show ?thesis
    using assms
    by (auto simp: handleError_snd cancel_snd clearTimeout_pending)
qed

lemma terminal_paths_clear_timer_witness:
  "loadTimeout (snd (load None (example_loader TEXT None 1))) = Some 1 \<and>
   pending (snd (load None (example_loader TEXT None 1))) = [1] \<and>
   1 \<notin> set (pending (snd (handleError (snd (load None (example_loader TEXT None 1)))))) \<and>
   1 \<notin> set (pending (snd (cancel (snd (load None (example_loader TEXT None 1))))))"
proof -
  let ?s = "snd (load None (example_loader TEXT None 1))"
  have h: "loadTimeout ?s = Some 1" and p: "pending ?s = [1]"
    by code_simp+
  show ?thesis
    using h p terminal_paths_clear_timer [OF h, of example_platform] by blast
qed

section \<open>The claims\<close>



text \<open>
  C2. Each of the four notification primitives does nothing at all (no callback, no
  event, no change of the loader) when the loader's \<open>canceled\<close> flag is set or
  \<open>window.createjs\<close> is gone. \<open>cancel()\<close> sets the flag and notifies nobody, also
  when it throws for want of a request, and no method resets the flag: whatever events
  arrive afterwards, delivered by the browser or with the methods called directly, the
  notifications stay those delivered before the \<open>cancel()\<close>.
\<close>

theorem canceled_loader_is_silent:
  "(canceled s \<or> \<not> createjs s \<longrightarrow>
      sendLoadStart s = s \<and> sendProgress v s = s \<and> sendComplete s = s \<and>
      sendError src s = s) \<and>
   canceled (snd (cancel s)) \<and>
   notified (snd (cancel s)) = notified s \<and>
   canceled (run p es (snd (cancel s))) \<and>
   notified (run p es (snd (cancel s))) = notified s \<and>
   canceled (invoke_all p es (snd (cancel s))) \<and>
   notified (invoke_all p es (snd (cancel s))) = notified s"
proof -
  have c: "canceled (snd (cancel s))" and n: "notified (snd (cancel s)) = notified s"
    by (simp_all add: cancel_snd)
  show ?thesis
    using c n run_canceled [OF c, of p es] invoke_all_canceled [OF c, of p es]
    by (simp add: isCanceled_send isCanceled_iff)
qed

theorem canceled_loader_is_silent_witness:
  "canceled (snd (cancel (run example_platform [CallLoad None, OnLoadStart]
       (example_loader TEXT None 1)))) \<and>
   sendComplete (snd (cancel (run example_platform [CallLoad None, OnLoadStart]
       (example_loader TEXT None 1)))) =
     snd (cancel (run example_platform [CallLoad None, OnLoadStart]
       (example_loader TEXT None 1))) \<and>
   notified (run example_platform
       (arrived 200 ''abc'' @ [OnProgress (Fin 3) (Fin 3), OnReadyStateChange, OnLoad, OnError,
          TimerFired 1, CallLoad (Some (HostError ''denied'')), TagOnLoad])
       (snd (cancel (run example_platform [CallLoad None, OnLoadStart]
          (example_loader TEXT None 1))))) =
     [Notification LoadStartEvent True False] \<and>
   notified (invoke_all example_platform [OnLoad, OnTimeout, TagOnLoad]
       (snd (cancel (run example_platform [CallLoad None, OnLoadStart]
          (example_loader TEXT None 1))))) =
     [Notification LoadStartEvent True False]"
proof -
  let ?s = "run example_platform [CallLoad None, OnLoadStart] (example_loader TEXT None 1)"
  have n: "notified ?s = [Notification LoadStartEvent True False]"
    by code_simp
  have c: "canceled (snd (cancel ?s))"
    using canceled_loader_is_silent [of ?s] by simp
  show ?thesis
    using c n
      canceled_loader_is_silent [of "snd (cancel ?s)" _ _ example_platform
        "arrived 200 ''abc'' @ [OnProgress (Fin 3) (Fin 3), OnReadyStateChange, OnLoad, OnError,
          TimerFired 1, CallLoad (Some (HostError ''denied'')), TagOnLoad]"]
      canceled_loader_is_silent [of ?s _ _ example_platform
        "arrived 200 ''abc'' @ [OnProgress (Fin 3) (Fin 3), OnReadyStateChange, OnLoad, OnError,
          TimerFired 1, CallLoad (Some (HostError ''denied'')), TagOnLoad]"]
      canceled_loader_is_silent [of ?s _ _ example_platform "[OnLoad, OnTimeout, TagOnLoad]"]
    by simp
qed

text \<open>
  C3, on the code. With no request, \<open>load()\<close> calls \<open>_handleError\<close>, whose \<open>_clean\<close>
  writes to the \<open>null\<close> request: \<open>load()\<close> throws a \<open>TypeError\<close> and \<open>_sendError\<close>
  is never reached, so nobody is notified.
\<close>

theorem load_without_request:
  "request s = None \<Longrightarrow>
     fst (load send s) = Throw TypeError \<and> notified (snd (load send s)) = notified s"
  by (simp add: load_def handleError_def clean_def Let_def)

theorem load_without_request_witness:
  "request (init ''asset'' TEXT None None) = None \<and>
   fst (load None (init ''asset'' TEXT None None)) = Throw TypeError \<and>
   notified (snd (load None (init ''asset'' TEXT None None))) = []"
proof -
  have r: "request (init ''asset'' TEXT None None) = None"
    by (simp add: init_def)
  show ?thesis
    using r load_without_request [OF r, of None] by (simp add: init_def)
qed

text \<open>
  C4, on the code. On a level-1 transport whose \<open>send()\<close> throws, \<open>load()\<close> sends the
  error notification with the exception as its source and returns with the manual timer
  still pending; when that timer fires, \<open>_handleTimeout\<close> sends a second error
  notification for the same attempt.
\<close>

theorem send_failure_leaves_timer:
  assumes "request s = Some req" "xhrLevel s = 1" "\<not> isCanceled s"
  shows
    "notified (snd (load (Some e) s)) =
       notified s @ [Notification (ErrorEvent (Some e)) (onError s) (listeners s)] \<and>
     next_timer s \<in> set (pending (snd (load (Some e) s))) \<and>
     notified (deliver p (TimerFired (next_timer s)) (snd (load (Some e) s))) =
       notified s @ [Notification (ErrorEvent (Some e)) (onError s) (listeners s),
                     Notification (ErrorEvent None) (onError s) (listeners s)]"
proof -
  let ?s1 = "snd (load (Some e) s)"
  have live: "createjs s" "\<not> canceled s"
    using assms(3) by (simp_all add: isCanceled_iff)
  have n1: "notified ?s1 =
      notified s @ [Notification (ErrorEvent (Some e)) (onError s) (listeners s)]"
    using assms by (simp add: load_notified)
  have p1: "next_timer s \<in> set (pending ?s1)"
    using load_level1(2) [OF assms(1,2) live(1)] by simp
  have keep: "request ?s1 \<noteq> None" "onError ?s1 = onError s" "listeners ?s1 = listeners s"
    using assms(1) live
    by (auto simp: load_def setTimeout_def Let_def sendError_def notify_def isCanceled_iff
        split: option.splits)
  have "notified (invoke p (TimerFired (next_timer s)) ?s1) =
      notified ?s1 @ [Notification (ErrorEvent None) (onError s) (listeners s)]"
    using keep live
    by (simp add: handleError_snd send_notified isCanceled_iff clean_def clearTimeout_def
        Let_def split: option.splits)
  then show ?thesis
    using n1 p1 by (simp add: deliver_def)
qed

theorem send_failure_leaves_timer_witness:
  "errors (run example_platform [CallLoad (Some (HostError ''denied'')), TimerFired 1]
      (example_loader TEXT None 1)) = 2 \<and>
   notified (run example_platform [CallLoad (Some (HostError ''denied'')), TimerFired 1]
      (example_loader TEXT None 1)) =
     [Notification (ErrorEvent (Some (HostError ''denied''))) True False,
      Notification (ErrorEvent None) True False]"
proof -
  let ?s = "example_loader TEXT None 1"
  have h: "request ?s = Some (the (request ?s))" "xhrLevel ?s = 1" "\<not> isCanceled ?s"
    by code_simp+
  have f: "next_timer ?s = 1" "notified ?s = []" "onError ?s" "\<not> listeners ?s"
    by code_simp+
  have r: "run example_platform [CallLoad (Some (HostError ''denied'')), TimerFired 1] ?s =
      deliver example_platform (TimerFired (next_timer ?s))
        (snd (load (Some (HostError ''denied'')) ?s))"
    by code_simp
  have "notified (run example_platform [CallLoad (Some (HostError ''denied'')), TimerFired 1] ?s) =
     notified ?s @ [Notification (ErrorEvent (Some (HostError ''denied''))) (onError ?s) (listeners ?s),
        Notification (ErrorEvent None) (onError ?s) (listeners ?s)]"
    unfolding r
    using send_failure_leaves_timer [OF h, of "HostError ''denied''" example_platform]
    by blast
  then show ?thesis
    using f by (simp add: errors_def)
qed

text \<open>
  C5. \<open>_checkError\<close> reports an error exactly when \<open>parseInt\<close> of the status is 404
  or 0; for a numeric status that is when the status is 404 or 0, and every other status
  counts as success. On the first completion signal of a load with such a status (the
  loader has not loaded, so the tag's \<open>onload\<close> is not bound yet) \<open>_handleLoad\<close> takes
  the error path: on a live loader one error notification is sent and nothing else. No
  complete notification is sent then or later: not by any events the browser delivers
  afterwards, and not by a further call of \<open>_handleLoad\<close> or of the ready-state
  handler.
\<close>

theorem error_status_fails_the_load:
  assumes "request s = Some req" "\<not> loaded s" "\<not> tag_bound s"
  shows
    "checkError s = Return (parseInt (status_string (status req)) \<noteq> Some 404 \<and>
                           parseInt (status_string (status req)) \<noteq> Some 0) \<and>
     (\<forall>n. status req = StatusNumber n \<longrightarrow>
        (checkError s = Return False \<longleftrightarrow> n = 404 \<or> n = 0)) \<and>
     (checkError s = Return False \<longrightarrow>
        (\<not> isCanceled s \<longrightarrow>
           notified (snd (handleLoad p s)) =
             notified s @ [Notification (ErrorEvent None) (onError s) (listeners s)]) \<and>
        (\<forall>es.
           completes (run p es (snd (handleLoad p s))) = completes s \<and>
           completes (snd (handleLoad p (run p es (snd (handleLoad p s))))) = completes s \<and>
           completes (snd (handleReadyStateChange p (run p es (snd (handleLoad p s))))) =
             completes s))"
proof -
  let ?s1 = "snd (handleLoad p s)"
  note ce = checkError_parseInt [OF assms(1)]
  have num: "checkError s = Return False \<longleftrightarrow> n = 404 \<or> n = 0" if "status req = StatusNumber n" for n
    using that by (auto simp: ce parseInt_decimal_int)
  have err: "notified ?s1 = notified s @ [Notification (ErrorEvent None) (onError s) (listeners s)]"
    if "checkError s = Return False" "\<not> isCanceled s"
    using that assms(1,2)
    by (simp add: handleLoad_snd handleError_snd send_notified isCanceled_iff)
  have later: "completes (run p es ?s1) = completes s \<and>
      completes (snd (handleLoad p (run p es ?s1))) = completes s \<and>
      completes (snd (handleReadyStateChange p (run p es ?s1))) = completes s"
    if "checkError s = Return False" for es
  proof -
    have s1: "loaded ?s1" "\<not> tag_bound ?s1" "completes ?s1 = completes s"
      using that assms
      by (simp_all add: handleLoad_snd handleError_snd tag_bound_def)
    from run_after_failure [OF s1(1,2), of p es]
    show ?thesis
      using s1(3)
      by (simp add: handleLoad_loaded handleReadyStateChange_snd split: option.splits)
  qed
  show ?thesis
    using ce num err later by blast
qed

theorem error_status_fails_the_load_witness:
  "checkError (run example_platform (CallLoad None # arrived 404 ''Not Found'')
      (example_loader TEXT None 2)) = Return False \<and>
   notified (snd (handleLoad example_platform
      (run example_platform (CallLoad None # arrived 404 ''Not Found'')
         (example_loader TEXT None 2)))) = [Notification (ErrorEvent None) True False] \<and>
   completes (run example_platform
      [Transport (SetStatus (StatusNumber 200)), OnReadyStateChange, CallLoad None,
       OnReadyStateChange, OnLoad, TagOnLoad]
      (snd (handleLoad example_platform
         (run example_platform (CallLoad None # arrived 404 ''Not Found'')
            (example_loader TEXT None 2))))) = 0 \<and>
   completes (snd (handleReadyStateChange example_platform
      (snd (handleLoad example_platform
         (run example_platform (CallLoad None # arrived 404 ''Not Found'')
            (example_loader TEXT None 2)))))) = 0"
proof -
  let ?p = example_platform
  let ?s = "run ?p (CallLoad None # arrived 404 ''Not Found'') (example_loader TEXT None 2)"
  let ?es = "[Transport (SetStatus (StatusNumber 200)), OnReadyStateChange, CallLoad None,
       OnReadyStateChange, OnLoad, TagOnLoad]"
  have h: "request ?s = Some (the (request ?s))" "\<not> loaded ?s" "\<not> tag_bound ?s"
    by code_simp+
  have f: "checkError ?s = Return False" "\<not> isCanceled ?s" "notified ?s = []"
    "onError ?s" "\<not> listeners ?s" "completes ?s = 0"
    by code_simp+
  note t = error_status_fails_the_load [OF h, of ?p]
  have a: "notified (snd (handleLoad ?p ?s)) = [Notification (ErrorEvent None) True False]"
    using t f by auto
  have b: "completes (run ?p ?es (snd (handleLoad ?p ?s))) = 0"
    using t f(1,6) by metis
  have c: "completes (snd (handleReadyStateChange ?p (run ?p [] (snd (handleLoad ?p ?s))))) = 0"
    using t f(1,6) by metis
  show ?thesis
    using f(1) a b c by simp
qed

text \<open>
  C6, as the code has it. When the body of a JSON item does not evaluate, the load
  still completes (one complete notification, no error) and the result is the text as
  fetched; the raw result is not written: it is what it was before the load, \<open>null\<close>
  on a loader that has not loaded.
\<close>

theorem json_parse_failure_completes:
  assumes "item_type s = JSON" "request s = Some req" "\<not> loaded s" "\<not> isCanceled s"
    "checkError s = Return True" "getResponse s = Return (Str body)"
    "js_eval p (''json='' @ body) = None"
  shows "fst (handleLoad p s) = Return () \<and>
     notified (snd (handleLoad p s)) =
       notified s @ [Notification CompleteEvent (onComplete s) (listeners s)] \<and>
     getResult (snd (handleLoad p s)) = Str body \<and>
     getRawResult (snd (handleLoad p s)) = getRawResult s"
proof -
  let ?s2 = "snd (clean (s\<lparr>loaded := True, response := Str body\<rparr>))"
  have live: "createjs s" "\<not> canceled s"
    using assms(4) by (simp_all add: isCanceled_iff)
  have ce: "checkError (s\<lparr>loaded := True\<rparr>) = Return True"
    using assms(5) by simp
  have gr: "getResponse (s\<lparr>loaded := True\<rparr>) = Return (Str body)"
    using assms(6) by simp
  have cl: "fst (clean (s\<lparr>loaded := True, response := Str body\<rparr>)) = Return ()"
    using assms(2) by (simp add: clean_fst)
  have gt: "fst (generateTag p ?s2) = Return True" "snd (generateTag p ?s2) = ?s2"
    using assms(1,7) live by (simp_all add: generateTag_def)
  have "fst (handleLoad p s) = Return ()"
    using assms(3,5,6) cl gt by (simp add: handleLoad_fst)
  moreover have "snd (handleLoad p s) = sendComplete ?s2"
    using assms(3) ce gr cl gt by (simp add: handleLoad_snd)
  ultimately show ?thesis
    using live by (simp add: send_notified isCanceled_iff getResult_def getRawResult_def)
qed

theorem json_parse_failure_completes_witness:
  "notified (snd (handleLoad example_platform
      (run example_platform (CallLoad None # arrived 200 ''{not valid json'')
         (example_loader JSON None 2)))) = [Notification CompleteEvent True False] \<and>
   getResult (snd (handleLoad example_platform
      (run example_platform (CallLoad None # arrived 200 ''{not valid json'')
         (example_loader JSON None 2)))) = Str ''{not valid json'' \<and>
   getRawResult (snd (handleLoad example_platform
      (run example_platform (CallLoad None # arrived 200 ''{not valid json'')
         (example_loader JSON None 2)))) = Null"
proof -
  let ?p = example_platform
  let ?s = "run ?p (CallLoad None # arrived 200 ''{not valid json'') (example_loader JSON None 2)"
  have h: "item_type ?s = JSON" "request ?s = Some (the (request ?s))" "\<not> loaded ?s"
    "\<not> isCanceled ?s" "checkError ?s = Return True"
    "getResponse ?s = Return (Str ''{not valid json'')"
    "js_eval ?p (''json='' @ ''{not valid json'') = None"
    by code_simp+
  have before: "notified ?s = []" "onComplete ?s" "\<not> listeners ?s" "getRawResult ?s = Null"
    by code_simp+
  show ?thesis
    using json_parse_failure_completes [OF h] before by auto
qed

text \<open>
  C6 as stated fails: after a JSON load of the body \<open>{not valid json\<close> has completed,
  the result is that text and the raw result is \<open>null\<close>, not the text.
\<close>

theorem json_parse_failure_raw_is_null:
  "notified (run example_platform (CallLoad None # arrived 200 ''{not valid json'' @ [OnLoad])
      (example_loader JSON None 2)) = [Notification CompleteEvent True False] \<and>
   getResult (run example_platform (CallLoad None # arrived 200 ''{not valid json'' @ [OnLoad])
      (example_loader JSON None 2)) = Str ''{not valid json'' \<and>
   getRawResult (run example_platform (CallLoad None # arrived 200 ''{not valid json'' @ [OnLoad])
      (example_loader JSON None 2)) = Null \<and>
   getRawResult (run example_platform (CallLoad None # arrived 200 ''{not valid json'' @ [OnLoad])
      (example_loader JSON None 2)) \<noteq> Str ''{not valid json''"
  by code_simp

text \<open>
  C7, on the code. For an item of type XML, \<open>_generateTag\<close> replaces the response by
  the parsed document and leaves the raw response as it was: the fetched text is not
  kept.
\<close>

theorem generateTag_XML_drops_raw:
  "item_type s = XML \<Longrightarrow> createjs s \<Longrightarrow>
     generateTag p s =
       (Return True, s\<lparr>response := Document (parseXML p (toString (response s)) ''text/xml'')\<rparr>) \<and>
     rawResponse (snd (generateTag p s)) = rawResponse s"
  by (simp add: generateTag_def)

theorem generateTag_XML_drops_raw_witness:
  "item_type ((example_loader XML None 2)\<lparr>response := Str ''<a/>''\<rparr>) = XML \<and>
   createjs ((example_loader XML None 2)\<lparr>response := Str ''<a/>''\<rparr>) \<and>
   response (snd (generateTag example_platform
      ((example_loader XML None 2)\<lparr>response := Str ''<a/>''\<rparr>))) =
     Document (DOMParsed ''text/xml'' ''<a/>'') \<and>
   rawResponse (snd (generateTag example_platform
      ((example_loader XML None 2)\<lparr>response := Str ''<a/>''\<rparr>))) = Null \<and>
   getResult (run example_platform (CallLoad None # arrived 200 ''<a/>'' @ [OnLoad])
      (example_loader XML None 2)) = Document (DOMParsed ''text/xml'' ''<a/>'') \<and>
   getRawResult (run example_platform (CallLoad None # arrived 200 ''<a/>'' @ [OnLoad])
      (example_loader XML None 2)) = Null"
proof -
  let ?s = "(example_loader XML None 2)\<lparr>response := Str ''<a/>''\<rparr>"
  have h: "item_type ?s = XML" "createjs ?s"
    by (simp_all add: example_loader_def init_def)
  have whole: "getResult (run example_platform (CallLoad None # arrived 200 ''<a/>'' @ [OnLoad])
        (example_loader XML None 2)) = Document (DOMParsed ''text/xml'' ''<a/>'')"
    "getRawResult (run example_platform (CallLoad None # arrived 200 ''<a/>'' @ [OnLoad])
        (example_loader XML None 2)) = Null"
    by code_simp+
  have "rawResponse ?s = Null"
    by (simp add: example_loader_def init_def)
  then show ?thesis
    using h whole generateTag_XML_drops_raw [OF h, of example_platform]
    by (simp add: parseXML_def example_platform_def)
qed

text \<open>
  C8, on the code. \<open>_sendProgress\<close> stores the quotient \<open>loaded / total\<close> and
  replaces it by 0 only when it is not-a-number or equal to \<open>Infinity\<close>; nothing keeps
  it between 0 and 1. On a loader that is not canceled the pair with \<open>loaded = 3\<close> and
  \<open>total = 2\<close> leaves the progress at 3/2, and the pair with \<open>loaded = -1\<close> and
  \<open>total = 0\<close>, whose quotient is \<open>-Infinity\<close>, leaves it at \<open>-Infinity\<close>, which the
  comparison with \<open>Infinity\<close> does not catch. Both quotients are the same in
  floating point as here: 1.5 is a double, and a negative number over zero is
  \<open>-Infinity\<close>.
\<close>

theorem sendProgress_leaves_unit_interval:
  "\<not> isCanceled s \<Longrightarrow>
     progress (sendProgress (LoadedTotal (Fin 3) (Fin 2)) s) = Fin (3 / 2) \<and>
     \<not> unit_interval (progress (sendProgress (LoadedTotal (Fin 3) (Fin 2)) s)) \<and>
     progress (sendProgress (LoadedTotal (Fin (- 1)) (Fin 0)) s) = NegInfinity \<and>
     \<not> unit_interval (progress (sendProgress (LoadedTotal (Fin (- 1)) (Fin 0)) s))"
  by (simp add: sendProgress_def notify_def isNaN_def Let_def)

theorem sendProgress_leaves_unit_interval_witness:
  "\<not> isCanceled (example_loader TEXT None 2) \<and>
   progress (sendProgress (LoadedTotal (Fin 3) (Fin 2)) (example_loader TEXT None 2)) =
     Fin (3 / 2) \<and>
   \<not> unit_interval
     (progress (sendProgress (LoadedTotal (Fin 3) (Fin 2)) (example_loader TEXT None 2))) \<and>
   progress (sendProgress (LoadedTotal (Fin (- 1)) (Fin 0)) (example_loader TEXT None 2)) =
     NegInfinity"
proof -
  have live: "\<not> isCanceled (example_loader TEXT None 2)"
    by (simp add: example_loader_def init_def isCanceled_def)
  show ?thesis
    using live sendProgress_leaves_unit_interval [OF live] by blast
qed

text \<open>
  C9. \<open>_handleProgress\<close> ignores a progress event with \<open>loaded > 0\<close> and
  \<open>total == 0\<close>: the loader is left as it was, so nothing is forwarded and nobody is
  notified. Every other event is handed to \<open>_sendProgress\<close> as the pair of its
  \<open>loaded\<close> and \<open>total\<close>, unchanged; on a loader that is not canceled this is one
  progress notification carrying exactly that pair.
\<close>

theorem handleProgress_forwards:
  "(greater_zero l \<and> t = Fin 0 \<longrightarrow> handleProgress l t s = s) \<and>
   (\<not> (greater_zero l \<and> t = Fin 0) \<longrightarrow>
      handleProgress l t s = sendProgress (LoadedTotal l t) s \<and>
      (\<not> isCanceled s \<longrightarrow>
         notified (handleProgress l t s) =
           notified s @ [Notification (ProgressEvent l t) (onProgress s) (listeners s)]))"
  by (simp add: handleProgress_def equals_zero_def sendProgress_notified)

theorem handleProgress_forwards_witness:
  "handleProgress (Fin 512) (Fin 0) (example_loader TEXT None 2) = example_loader TEXT None 2 \<and>
   notified (handleProgress (Fin 512) (Fin 2048) (example_loader TEXT None 2)) =
     [Notification (ProgressEvent (Fin 512) (Fin 2048)) True False] \<and>
   notified (handleProgress (Fin 0) (Fin 0) (example_loader TEXT None 2)) =
     [Notification (ProgressEvent (Fin 0) (Fin 0)) True False]"
proof -
  let ?s = "example_loader TEXT None 2"
  have live: "\<not> isCanceled ?s" "notified ?s = []" "onProgress ?s" "\<not> listeners ?s"
    by (simp_all add: example_loader_def init_def isCanceled_def)
  have a: "handleProgress (Fin 512) (Fin 0) ?s = ?s"
    using handleProgress_forwards [of "Fin 512" "Fin 0" ?s] by simp
  have b: "notified (handleProgress (Fin 512) (Fin 2048) ?s) =
      notified ?s @ [Notification (ProgressEvent (Fin 512) (Fin 2048)) (onProgress ?s) (listeners ?s)]"
    using live(1) handleProgress_forwards [of "Fin 512" "Fin 2048" ?s] by auto
  have c: "notified (handleProgress (Fin 0) (Fin 0) ?s) =
      notified ?s @ [Notification (ProgressEvent (Fin 0) (Fin 0)) (onProgress ?s) (listeners ?s)]"
    using live(1) handleProgress_forwards [of "Fin 0" "Fin 0" ?s] by auto
  show ?thesis
    using a b c live by simp
qed

text \<open>
  C10. On a level-1 transport \<open>load()\<close> leaves its manual timer pending, and the
  load-start event, which is bound then, clears it. From there on that timer is never
  pending again, whatever events follow, so it cannot fire: its delivery changes
  nothing. When no other timer was pending and \<open>load()\<close> is not called again, no timer
  is pending at all after load-start, so a load that stalls there gets no emulated
  timeout.
\<close>

theorem load_start_clears_manual_timer:
  assumes "request s = Some req" "xhrLevel s = 1" "createjs s"
  shows
    "loadTimeout (snd (load send s)) = Some (next_timer s) \<and>
     next_timer s \<in> set (pending (snd (load send s))) \<and>
     deliver p OnLoadStart (snd (load send s)) = handleLoadStart (snd (load send s)) \<and>
     next_timer s \<notin> set (pending (deliver p OnLoadStart (snd (load send s)))) \<and>
     (\<forall>es.
        next_timer s \<notin> set (pending (run p es (deliver p OnLoadStart (snd (load send s))))) \<and>
        deliver p (TimerFired (next_timer s))
            (run p es (deliver p OnLoadStart (snd (load send s)))) =
          run p es (deliver p OnLoadStart (snd (load send s)))) \<and>
     (pending s = [] \<longrightarrow>
        (\<forall>es. list_all (\<lambda>e. \<not> is_load e) es \<longrightarrow>
           pending (run p es (deliver p OnLoadStart (snd (load send s)))) = [] \<and>
           (\<forall>i. deliver p (TimerFired i)
                    (run p es (deliver p OnLoadStart (snd (load send s)))) =
                  run p es (deliver p OnLoadStart (snd (load send s))))))"
proof -
  let ?t = "next_timer s"
  let ?s1 = "snd (load send s)"
  let ?s2 = "deliver p OnLoadStart ?s1"
  note l = load_level1 [OF assms, of send]
  have d: "?s2 = handleLoadStart ?s1"
    using l(4) by (simp add: deliver_def)
  have p2: "pending ?s2 = removeAll ?t (pending s)" "next_timer ?s2 = Suc ?t"
    using l(1,2,3) by (simp_all add: d handleLoadStart_def clearTimeout_def)
  have gone: "?t \<notin> set (pending (run p es ?s2))" for es
    using run_cleared_timer [where t = ?t and s = ?s2 and p = p and es = es] p2 by simp
  have none: "pending (run p es ?s2) = []"
    if "pending s = []" "list_all (\<lambda>e. \<not> is_load e) es" for es
    using run_no_timers [where s = ?s2 and es = es and p = p] that p2(1) by simp
  show ?thesis
    using l(1,2) d p2(1) gone none by (simp add: deliver_def)
qed

theorem load_start_clears_manual_timer_witness:
  "pending (snd (load None (example_loader TEXT None 1))) = [1] \<and>
   pending (deliver example_platform OnLoadStart (snd (load None (example_loader TEXT None 1)))) = [] \<and>
   run example_platform [OnProgress (Fin 10) (Fin 100), TimerFired 1]
      (deliver example_platform OnLoadStart (snd (load None (example_loader TEXT None 1)))) =
     run example_platform [OnProgress (Fin 10) (Fin 100)]
      (deliver example_platform OnLoadStart (snd (load None (example_loader TEXT None 1)))) \<and>
   errors (run example_platform [OnProgress (Fin 10) (Fin 100), TimerFired 1]
      (deliver example_platform OnLoadStart (snd (load None (example_loader TEXT None 1))))) = 0"
proof -
  let ?p = example_platform
  let ?s = "example_loader TEXT None 1"
  let ?s2 = "deliver ?p OnLoadStart (snd (load None ?s))"
  have h: "request ?s = Some (the (request ?s))" "xhrLevel ?s = 1" "createjs ?s"
    by code_simp+
  have f: "next_timer ?s = 1" "pending ?s = []"
    "list_all (\<lambda>e. \<not> is_load e) [OnProgress (Fin 10) (Fin 100)]"
    by code_simp+
  note t = load_start_clears_manual_timer [OF h, of None ?p]
  have quiet: "\<forall>es. list_all (\<lambda>e. \<not> is_load e) es \<longrightarrow>
      pending (run ?p es ?s2) = [] \<and>
      (\<forall>i. deliver ?p (TimerFired i) (run ?p es ?s2) = run ?p es ?s2)"
    using t f(2) by blast
  have a: "pending ?s2 = []"
    using spec [OF quiet, of "[]"] by simp
  have "deliver ?p (TimerFired 1) (run ?p [OnProgress (Fin 10) (Fin 100)] ?s2) =
      run ?p [OnProgress (Fin 10) (Fin 100)] ?s2"
    using spec [OF quiet, of "[OnProgress (Fin 10) (Fin 100)]"] f(3) by blast
  then have b: "run ?p [OnProgress (Fin 10) (Fin 100), TimerFired 1] ?s2 =
      run ?p [OnProgress (Fin 10) (Fin 100)] ?s2"
    by simp
  have c: "pending (snd (load None ?s)) = [1]"
    "errors (run ?p [OnProgress (Fin 10) (Fin 100)] ?s2) = 0"
    by code_simp+
  show ?thesis
    using a b c by simp
qed

end
